theory Spec2Isabelle
  imports Complex_Main
begin

section \<open>Strings\<close>

text \<open>
  A JavaScript string is a sequence of UTF-16 code units. The model uses \<open>string\<close>
  (a list of 8-bit characters), read as the code units below 256, that is the Latin-1
  range, which contains ASCII. On that range \<open>toLowerCase\<close> maps \<open>A-Z\<close> and the
  upper-case letters \<open>0xC0-0xDE\<close> (without the multiplication sign \<open>0xD7\<close>) 32 places
  up and leaves the rest alone, and the white space removed by \<open>trim\<close> and matched by the
  regular-expression class \<open>\s\<close> is TAB, LF, VT, FF, CR, SPACE and NBSP.
\<close>

definition lower_char :: "char \<Rightarrow> char" where
  "lower_char c =
     (let n = (of_char c :: nat)
      in if (65 \<le> n \<and> n \<le> 90) \<or> (192 \<le> n \<and> n \<le> 222 \<and> n \<noteq> 215)
         then char_of (n + 32) else c)"

definition toLowerCase :: "string \<Rightarrow> string" where
  "toLowerCase s = map lower_char s"

definition is_space :: "char \<Rightarrow> bool" where
  "is_space c = ((of_char c :: nat) \<in> set [9, 10, 11, 12, 13, 32, 160])"

definition trim :: "string \<Rightarrow> string" where
  "trim s = rev (dropWhile is_space (rev (dropWhile is_space s)))"

section \<open>Record reconciliation: \<open>performMatching\<close> of \<open>AccountMatchingComponent\<close>\<close>

text \<open>
  The interfaces \<open>PDFFile\<close>, \<open>CustomerData\<close> and \<open>MatchedData\<close> of
  \<open>EmailSendingComponent.tsx\<close>. The blob is opaque to the matching, so its type is a
  parameter.
\<close>

record 'b PDFFile =
  name :: string
  accountNumber :: string
  customerName :: string
  blob :: 'b

record CustomerData =
  accountNumber :: string
  email :: string
  customerName :: string

record 'b MatchedData =
  pdf :: "'b PDFFile"
  customer :: CustomerData
  matched :: bool

record MatchStats =
  total :: nat
  matched :: nat
  unmatched :: nat

text \<open>
  The props \<open>pdfFiles\<close> and \<open>customerData\<close> and the state \<open>matchedData\<close>,
  \<open>matchStats\<close>, \<open>isMatching\<close> of the component. Logging, the toast and the
  callback \<open>onMatchingComplete\<close> (which receives the same list as \<open>setMatchedData\<close>)
  are not part of the state.
\<close>

record 'b AccountMatching =
  pdfFiles :: "'b PDFFile list"
  customerData :: "CustomerData list"
  matchedData :: "'b MatchedData list"
  matchStats :: MatchStats
  isMatching :: bool

text \<open>
  Lines 738-743: the \<open>Map\<close> from the normalized account number to the customer, filled
  in input order by \<open>customerMap.set\<close>, which overwrites an existing key.
\<close>

definition customerMap :: "CustomerData list \<Rightarrow> (string \<rightharpoonup> CustomerData)" where
  "customerMap cs =
     fold (\<lambda>c m. m(trim (toLowerCase (CustomerData.accountNumber c)) \<mapsto> c)) cs Map.empty"

text \<open>Lines 748-764: the body of \<open>pdfFiles.forEach\<close>, the record pushed for one PDF.\<close>

definition match_pdf :: "(string \<rightharpoonup> CustomerData) \<Rightarrow> 'b PDFFile \<Rightarrow> 'b MatchedData" where
  "match_pdf m p =
     (let normalizedPdfAccountNumber = trim (toLowerCase (PDFFile.accountNumber p));
          found = m normalizedPdfAccountNumber
      in \<lparr> pdf = p,
           customer = (case found of
                         Some c \<Rightarrow> c
                       | None \<Rightarrow> \<lparr> CustomerData.accountNumber = PDFFile.accountNumber p,
                                   email = '''',
                                   CustomerData.customerName = PDFFile.customerName p \<rparr>),
           MatchedData.matched = (found \<noteq> None) \<rparr>)"

text \<open>Lines 738-765: the list \<open>matches\<close>.\<close>

definition matches_of :: "'b PDFFile list \<Rightarrow> CustomerData list \<Rightarrow> 'b MatchedData list" where
  "matches_of ps cs = map (match_pdf (customerMap cs)) ps"

definition performMatching :: "'b AccountMatching \<Rightarrow> 'b AccountMatching" where
  "performMatching st =
     (let matches = matches_of (pdfFiles st) (customerData st);
          stats = \<lparr> total = length matches,
                    MatchStats.matched = length (filter MatchedData.matched matches),
                    unmatched = length (filter (\<lambda>m. \<not> MatchedData.matched m) matches) \<rparr>
      in st \<lparr> matchedData := matches, matchStats := stats, isMatching := False \<rparr>)"

text \<open>The normalized join key of a customer record and of a PDF.\<close>

abbreviation customer_key :: "CustomerData \<Rightarrow> string" where
  "customer_key c \<equiv> trim (toLowerCase (CustomerData.accountNumber c))"

abbreviation pdf_key :: "'b PDFFile \<Rightarrow> string" where
  "pdf_key p \<equiv> trim (toLowerCase (PDFFile.accountNumber p))"

section \<open>String operations of the JavaScript library\<close>

text \<open>\<open>s.includes(t)\<close>: \<open>t\<close> occurs in \<open>s\<close> as a contiguous block.\<close>

fun str_includes :: "string \<Rightarrow> string \<Rightarrow> bool" where
  "str_includes [] t = (t = [])"
| "str_includes (c # cs) t = (take (length t) (c # cs) = t \<or> str_includes cs t)"

text \<open>
  \<open>s.replace(t, r)\<close> with a string \<open>t\<close>: the first occurrence of \<open>t\<close> is replaced.
  (The replacements of the code are the empty string and a single space, which hold no
  \<open>$\<close> pattern.)
\<close>

fun replace_first :: "string \<Rightarrow> string \<Rightarrow> string \<Rightarrow> string" where
  "replace_first t r [] = (if t = [] then r else [])"
| "replace_first t r (c # cs) =
     (if take (length t) (c # cs) = t then r @ drop (length t) (c # cs)
      else c # replace_first t r cs)"

text \<open>\<open>s.split(sep)\<close> for a separator of one character; the result is never empty.\<close>

fun split :: "char \<Rightarrow> string \<Rightarrow> string list" where
  "split sep [] = [[]]"
| "split sep (c # cs) =
     (if c = sep then [] # split sep cs
      else (case split sep cs of [] \<Rightarrow> [[c]] | p # ps \<Rightarrow> (c # p) # ps))"

text \<open>\<open>parts.join(sep)\<close>.\<close>

fun join :: "string \<Rightarrow> string list \<Rightarrow> string" where
  "join sep [] = []"
| "join sep [p] = p"
| "join sep (p # q # ps) = p @ sep @ join sep (q # ps)"

text \<open>A natural number inside a template literal: its decimal digits.\<close>

fun string_of_nat :: "nat \<Rightarrow> string" where
  "string_of_nat n =
     (if n < 10 then [char_of (48 + n)]
      else string_of_nat (n div 10) @ [char_of (48 + n mod 10)])"

declare string_of_nat.simps [simp del]

section \<open>Regular expressions\<close>

text \<open>
  Every regular-expression literal in \<open>parseFilename\<close>, \<open>calculateConfidence\<close> and
  \<open>generateAccountPattern\<close> is a sequence of character classes, each with a greedy
  quantifier \<open>{lo,hi}\<close> (\<open>+\<close> is \<open>{1,}\<close>, \<open>?\<close> is \<open>{0,1}\<close>, no quantifier is
  \<open>{1,1}\<close>), optionally between \<open>^\<close> and \<open>$\<close>. Such an expression is a list of
  items; \<open>None\<close> as upper bound means unbounded.
\<close>

type_synonym item = "(char \<Rightarrow> bool) \<times> nat \<times> nat option"

definition is_upper :: "char \<Rightarrow> bool" where \<comment> \<open>\<open>[A-Z]\<close>\<close>
  "is_upper c = (let n = (of_char c :: nat) in 65 \<le> n \<and> n \<le> 90)"

definition is_lower :: "char \<Rightarrow> bool" where \<comment> \<open>\<open>[a-z]\<close>\<close>
  "is_lower c = (let n = (of_char c :: nat) in 97 \<le> n \<and> n \<le> 122)"

definition is_digit :: "char \<Rightarrow> bool" where \<comment> \<open>\<open>\d\<close>\<close>
  "is_digit c = (let n = (of_char c :: nat) in 48 \<le> n \<and> n \<le> 57)"

definition is_upper_digit :: "char \<Rightarrow> bool" where \<comment> \<open>\<open>[A-Z0-9]\<close>\<close>
  "is_upper_digit c = (is_upper c \<or> is_digit c)"

definition is_letter :: "char \<Rightarrow> bool" where \<comment> \<open>\<open>[A-Za-z]\<close>\<close>
  "is_letter c = (is_upper c \<or> is_lower c)"

definition is_alnum :: "char \<Rightarrow> bool" where \<comment> \<open>\<open>[A-Za-z0-9]\<close>\<close>
  "is_alnum c = (is_upper c \<or> is_lower c \<or> is_digit c)"

definition is_separator :: "char \<Rightarrow> bool" where \<comment> \<open>\<open>[_\-\s]\<close>\<close>
  "is_separator c = (c = CHR ''_'' \<or> c = CHR ''-'' \<or> is_space c)"

definition is_slash_dash :: "char \<Rightarrow> bool" where \<comment> \<open>\<open>[\/\-]\<close>\<close>
  "is_slash_dash c = (c = CHR ''/'' \<or> c = CHR ''-'')"

text \<open>The greedy run: how many leading characters are in the class, at most \<open>hi\<close>.\<close>

fun run :: "(char \<Rightarrow> bool) \<Rightarrow> nat option \<Rightarrow> string \<Rightarrow> nat" where
  "run P hi [] = 0"
| "run P hi (c # cs) =
     (if hi = Some 0 \<or> \<not> P c then 0
      else Suc (run P (map_option (\<lambda>h. h - 1) hi) cs))"

text \<open>
  Backtracking: the continuation \<open>f\<close> is tried with \<open>k\<close> repetitions, then \<open>k - 1\<close>, down
  to \<open>lo\<close>; the first success wins.
\<close>

fun try_down :: "(nat \<Rightarrow> nat option) \<Rightarrow> nat \<Rightarrow> nat \<Rightarrow> nat option" where
  "try_down f lo 0 = (if lo = 0 then f 0 else None)"
| "try_down f lo (Suc k) =
     (if Suc k < lo then None
      else (case f (Suc k) of Some n \<Rightarrow> Some n | None \<Rightarrow> try_down f lo k))"

text \<open>
  \<open>match_items its eos s\<close>: the length of the match of the items at the start of \<open>s\<close>
  that a backtracking matcher finds first, if there is one; with \<open>eos\<close> the match has to
  end where \<open>s\<close> ends (\<open>$\<close>).
\<close>

fun match_items :: "item list \<Rightarrow> bool \<Rightarrow> string \<Rightarrow> nat option" where
  "match_items [] eos s = (if eos \<and> s \<noteq> [] then None else Some 0)"
| "match_items ((P, lo, hi) # its) eos s =
     try_down (\<lambda>k. map_option (\<lambda>n. k + n) (match_items its eos (drop k s))) lo (run P hi s)"

text \<open>The leftmost match in \<open>s\<close>: its index (counted from \<open>i\<close>) and its length.\<close>

fun search_items :: "item list \<Rightarrow> nat \<Rightarrow> string \<Rightarrow> (nat \<times> nat) option" where
  "search_items its i [] =
     (case match_items its False [] of None \<Rightarrow> None | Some n \<Rightarrow> Some (i, n))"
| "search_items its i (c # cs) =
     (case match_items its False (c # cs) of
        None \<Rightarrow> search_items its (Suc i) cs
      | Some n \<Rightarrow> Some (i, n))"

text \<open>\<open>/^...$/.test(s)\<close> and \<open>/.../.test(s)\<close>.\<close>

definition test_full :: "item list \<Rightarrow> string \<Rightarrow> bool" where
  "test_full its s = (match_items its True s \<noteq> None)"

definition test_some :: "item list \<Rightarrow> string \<Rightarrow> bool" where
  "test_some its s = (search_items its 0 s \<noteq> None)"

text \<open>
  \<open>s.replace(/.../g, r)\<close>: the matches are found from left to right, each search
  starting where the last match ended (one character further after an empty match); the
  third argument counts the characters of the current match still to be dropped.
\<close>

fun replace_all :: "item list \<Rightarrow> string \<Rightarrow> nat \<Rightarrow> string \<Rightarrow> string" where
  "replace_all its r (Suc k) [] = []"
| "replace_all its r (Suc k) (c # cs) = replace_all its r k cs"
| "replace_all its r 0 [] = (case match_items its False [] of None \<Rightarrow> [] | Some n \<Rightarrow> r)"
| "replace_all its r 0 (c # cs) =
     (case match_items its False (c # cs) of
        None \<Rightarrow> c # replace_all its r 0 cs
      | Some 0 \<Rightarrow> r @ c # replace_all its r 0 cs
      | Some (Suc n) \<Rightarrow> r @ replace_all its r n cs)"

text \<open>
  \<open>(s.match(/[...]/g) || []).length\<close> for a single class: the number of characters of
  \<open>s\<close> in the class.
\<close>

definition count_class :: "(char \<Rightarrow> bool) \<Rightarrow> string \<Rightarrow> nat" where
  "count_class P s = length (filter P s)"

section \<open>Filename decomposition: \<open>parseFilename\<close> of \<open>ZipUploadComponent\<close>\<close>

record ParsedFilename =
  accountNumber :: string
  customerName :: string

text \<open>\<open>/([A-Z]{2,6}[A-Z0-9]{2,8})/\<close>; the group is the whole match.\<close>

definition account_shape :: "item list" where
  "account_shape = [(is_upper, 2, Some 6), (is_upper_digit, 2, Some 8)]"

text \<open>\<open>/[_\-\s]+/g\<close>\<close>

definition separators :: "item list" where
  "separators = [(is_separator, 1, None)]"

text \<open>\<open>/\d{1,2}[\/\-]\d{1,2}[\/\-]\d{2,4}/g\<close>\<close>

definition date_mdy :: "item list" where
  "date_mdy = [(is_digit, 1, Some 2), (is_slash_dash, 1, Some 1), (is_digit, 1, Some 2),
               (is_slash_dash, 1, Some 1), (is_digit, 2, Some 4)]"

text \<open>\<open>/\d{4}[\/\-]\d{1,2}[\/\-]\d{1,2}/g\<close>\<close>

definition date_ymd :: "item list" where
  "date_ymd = [(is_digit, 4, Some 4), (is_slash_dash, 1, Some 1), (is_digit, 1, Some 2),
               (is_slash_dash, 1, Some 1), (is_digit, 1, Some 2)]"

text \<open>\<open>/\d{1,2}[\/\-]\d{1,2}/g\<close>\<close>

definition date_md :: "item list" where
  "date_md = [(is_digit, 1, Some 2), (is_slash_dash, 1, Some 1), (is_digit, 1, Some 2)]"

text \<open>\<open>/^\d{1,2}[\/\-]\d{1,2}[\/\-]?\d{0,4}$/\<close>\<close>

definition date_part :: "item list" where
  "date_part = [(is_digit, 1, Some 2), (is_slash_dash, 1, Some 1), (is_digit, 1, Some 2),
                (is_slash_dash, 0, Some 1), (is_digit, 0, Some 4)]"

text \<open>\<open>x || 'Unknown'\<close>: the empty string is the only falsy string.\<close>

definition or_Unknown :: "string \<Rightarrow> string" where
  "or_Unknown x = (if x = [] then ''Unknown'' else x)"

text \<open>
  The \<open>for\<close> loop of strategies 3 and 4: the index of the first part that has the
  account shape.
\<close>

fun first_account_part :: "string list \<Rightarrow> nat \<Rightarrow> nat option" where
  "first_account_part [] i = None"
| "first_account_part (p # ps) i =
     (if test_full account_shape p then Some i else first_account_part ps (Suc i))"

text \<open>
  Strategies 3 and 4 (lines 73-93 and 97-117, the same code on the parts of a split at
  spaces or at dashes): the pair of \<open>accountNumber\<close> and \<open>customerName\<close> they leave.
\<close>

definition parse_parts :: "string list \<Rightarrow> string \<times> string" where
  "parse_parts parts =
     (let (accountNumber, customerName) =
            (case first_account_part parts 0 of
               None \<Rightarrow> ([], [])
             | Some i \<Rightarrow>
                 (let nameParts = map snd (filter (\<lambda>(index, part). index \<noteq> i
                                     \<and> \<not> test_full date_part part) (enumerate 0 parts))
                  in (parts ! i, or_Unknown (trim (join '' '' nameParts)))))
      in if accountNumber = [] \<and> 2 \<le> length parts then (parts ! 0, parts ! 1)
         else (accountNumber, customerName))"

definition parseFilename :: "string \<Rightarrow> ParsedFilename" where
  "parseFilename filename =
     (let nameWithoutExt = replace_first ''.PDF'' [] (replace_first ''.pdf'' [] filename);
          (accountNumber, customerName) =
            (case search_items account_shape 0 nameWithoutExt of
               Some (i, n) \<Rightarrow>
                 (let accountNumber = take n (drop i nameWithoutExt);
                      remaining = trim (replace_first accountNumber [] nameWithoutExt)
                  in (accountNumber,
                      or_Unknown (trim
                        (replace_all date_md [] 0
                          (replace_all date_ymd [] 0
                            (replace_all date_mdy [] 0
                              (replace_all separators '' '' 0 remaining)))))))
             | None \<Rightarrow>
                 if str_includes nameWithoutExt ''_'' then
                   (let parts = split (CHR ''_'') nameWithoutExt
                    in if 2 \<le> length parts then
                         (if test_full account_shape (parts ! 0) then (parts ! 0, parts ! 1)
                          else (parts ! 1, parts ! 0))
                       else ([], []))
                 else if str_includes nameWithoutExt '' '' then
                   parse_parts (split (CHR '' '') nameWithoutExt)
                 else if str_includes nameWithoutExt ''-'' then
                   parse_parts (split (CHR ''-'') nameWithoutExt)
                 else if 3 \<le> length nameWithoutExt \<and> length nameWithoutExt \<le> 20
                         \<and> test_full [(is_alnum, 1, None)] nameWithoutExt
                   then (nameWithoutExt, ''Unknown'')
                 else (nameWithoutExt, ''Unknown''))
      in \<lparr> ParsedFilename.accountNumber = or_Unknown accountNumber,
           ParsedFilename.customerName = or_Unknown customerName \<rparr>)"

section \<open>The \<open>RegExp\<close> object and \<open>exec\<close>\<close>

text \<open>
  The rules of \<open>detectPatterns\<close> and the patterns of \<open>testSinglePattern\<close> carry
  arbitrary regular expressions. Such an object is modelled by its \<open>global\<close> flag and
  by the search it performs: \<open>search r text i\<close> is the match found in \<open>text\<close> when
  the search starts at index \<open>i\<close>, with its index, the whole match \<open>match[0]\<close> and the
  first group \<open>match[1]\<close> (\<open>None\<close> for \<open>undefined\<close>). The sticky flag is not modelled.
\<close>

record RegExpMatch =
  index :: nat
  whole :: string
  group1 :: "string option"

record RegExp =
  global :: bool
  search :: "string \<Rightarrow> nat \<Rightarrow> RegExpMatch option"

text \<open>
  \<open>regex.exec(text)\<close> as the language defines it: a global expression starts at its
  \<open>lastIndex\<close> and moves it to the end of the match (to 0 on failure); any other
  expression starts at 0 and leaves \<open>lastIndex\<close> alone. The result is the match and the
  new \<open>lastIndex\<close>.
\<close>

definition exec :: "RegExp \<Rightarrow> string \<Rightarrow> nat \<Rightarrow> RegExpMatch option \<times> nat" where
  "exec r text lastIndex =
     (let start = (if global r then lastIndex else 0)
      in if length text < start then (None, if global r then 0 else lastIndex)
         else (case search r text start of
                 None \<Rightarrow> (None, if global r then 0 else lastIndex)
               | Some m \<Rightarrow> (Some m, if global r then index m + length (whole m)
                                     else lastIndex)))"

text \<open>\<open>match[1] || match[0]\<close>: \<open>undefined\<close> and the empty string are falsy.\<close>

definition group_or_whole :: "RegExpMatch \<Rightarrow> string" where
  "group_or_whole m = (case group1 m of None \<Rightarrow> whole m
                        | Some g \<Rightarrow> if g = [] then whole m else g)"

text \<open>A regular expression without group that is given by a list of items.\<close>

definition regex_of_items :: "bool \<Rightarrow> item list \<Rightarrow> RegExp" where
  "regex_of_items g its =
     \<lparr> global = g,
       search = (\<lambda>text start.
          case search_items its start (drop start text) of
            None \<Rightarrow> None
          | Some (i, n) \<Rightarrow> Some \<lparr> index = i, whole = take n (drop i text), group1 = None \<rparr>) \<rparr>"

text \<open>\<open>s.substring(a, b)\<close>: both bounds are clipped to the length and swapped if needed.\<close>

definition substring :: "string \<Rightarrow> nat \<Rightarrow> nat \<Rightarrow> string" where
  "substring s a b =
     (let a' = min a (length s); b' = min b (length s)
      in take (max a' b' - min a' b') (drop (min a' b') s))"

section \<open>Numbers\<close>

text \<open>
  A JavaScript number is an IEEE 754 double: a finite value, an infinity or \<open>NaN\<close>.
  A finite double is modelled by the real number it stands for, so the sign of zero is
  not modelled. Every arithmetic operation computes the exact result and rounds it to
  the nearest double, to the one with the even significand when two are equally near.
\<close>

datatype number = NaN | NegInf | Fin real | PosInf

definition round_half_even :: "real \<Rightarrow> int" where
  "round_half_even x =
     (let f = \<lfloor>x\<rfloor>; d = x - of_int f
      in if d < 1 / 2 then f else if 1 / 2 < d then f + 1 else if even f then f else f + 1)"

text \<open>
  The binary exponent \<open>e\<close> of a positive real \<open>x\<close>, with \<open>2 ^ e \<le> x < 2 ^ (e + 1)\<close>,
  found in steps of one. The number of steps is bounded; a value that is out of reach
  lies below the least or above the greatest exponent of a double anyway.
\<close>

fun binary_exponent :: "nat \<Rightarrow> real \<Rightarrow> int \<Rightarrow> int" where
  "binary_exponent 0 x e = e"
| "binary_exponent (Suc steps) x e =
     (if 2 \<le> x then binary_exponent steps (x / 2) (e + 1)
      else if x < 1 then binary_exponent steps (x * 2) (e - 1)
      else e)"

text \<open>
  Rounding to a double: 53 significant bits, the exponent of a normal number between
  -1022 and 1023, below that the fixed spacing \<open>2 ^ -1074\<close> of the subnormal numbers,
  above that an infinity.
\<close>

definition round_double :: "real \<Rightarrow> number" where
  "round_double x =
     (if x = 0 then Fin 0
      else
        (let a = \<bar>x\<bar>;
             e = max (- 1022) (binary_exponent 2100 a 0);
             q = 2 powi (e - 52);
             m = round_half_even (a / q)
         in if 1023 < e \<or> (e = 1023 \<and> 2 ^ 53 \<le> m)
            then (if 0 < x then PosInf else NegInf)
            else Fin (sgn x * (of_int m * q))))"

text \<open>The value of a decimal literal such as \<open>0.3\<close>: the double nearest to it.\<close>

definition literal :: "real \<Rightarrow> real" where
  "literal x = (case round_double x of Fin r \<Rightarrow> r | _ \<Rightarrow> 0)"

text \<open>\<open>x + y\<close>, \<open>-x\<close> and \<open>x - y\<close>.\<close>

fun num_add :: "number \<Rightarrow> number \<Rightarrow> number" where
  "num_add NaN y = NaN"
| "num_add x NaN = NaN"
| "num_add PosInf NegInf = NaN"
| "num_add NegInf PosInf = NaN"
| "num_add PosInf y = PosInf"
| "num_add x PosInf = PosInf"
| "num_add NegInf y = NegInf"
| "num_add x NegInf = NegInf"
| "num_add (Fin a) (Fin b) = round_double (a + b)"

fun num_neg :: "number \<Rightarrow> number" where
  "num_neg NaN = NaN"
| "num_neg NegInf = PosInf"
| "num_neg PosInf = NegInf"
| "num_neg (Fin a) = Fin (- a)"

definition num_sub :: "number \<Rightarrow> number \<Rightarrow> number" where
  "num_sub x y = num_add x (num_neg y)"

text \<open>
  \<open>x * c\<close> and \<open>x / c\<close> for a finite double \<open>c\<close> that is greater than 0 (the code
  multiplies by \<open>0.3\<close> and divides by \<open>10\<close>): \<open>NaN\<close> and the infinities stay.
\<close>

definition num_times :: "number \<Rightarrow> real \<Rightarrow> number" where
  "num_times x c = (case x of Fin a \<Rightarrow> round_double (a * c) | _ \<Rightarrow> x)"

definition num_over :: "number \<Rightarrow> real \<Rightarrow> number" where
  "num_over x c = (case x of Fin a \<Rightarrow> round_double (a / c) | _ \<Rightarrow> x)"

text \<open>\<open>x < y\<close> and \<open>x <= y\<close>: false when an operand is \<open>NaN\<close>.\<close>

fun num_less :: "number \<Rightarrow> number \<Rightarrow> bool" where
  "num_less NaN y = False"
| "num_less x NaN = False"
| "num_less x NegInf = False"
| "num_less PosInf y = False"
| "num_less NegInf y = True"
| "num_less x PosInf = True"
| "num_less (Fin a) (Fin b) = (a < b)"


text \<open>\<open>Math.min(x, y)\<close> and \<open>Math.max(x, y)\<close>: \<open>NaN\<close> when an argument is \<open>NaN\<close>.\<close>

definition num_min :: "number \<Rightarrow> number \<Rightarrow> number" where
  "num_min x y = (if x = NaN \<or> y = NaN then NaN else if num_less y x then y else x)"

definition num_max :: "number \<Rightarrow> number \<Rightarrow> number" where
  "num_max x y = (if x = NaN \<or> y = NaN then NaN else if num_less x y then y else x)"

text \<open>
  \<open>array.sort(compare)\<close>: the sort is stable, an element goes behind another one only
  if the comparison of the two is greater than 0, and a comparison that is \<open>NaN\<close>
  counts as 0. For a consistent comparison every stable sort gives this list.
\<close>

fun insert_sorted :: "('a \<Rightarrow> 'a \<Rightarrow> number) \<Rightarrow> 'a \<Rightarrow> 'a list \<Rightarrow> 'a list" where
  "insert_sorted compare x [] = [x]"
| "insert_sorted compare x (y # ys) =
     (if num_less (Fin 0) (compare x y) then y # insert_sorted compare x ys
      else x # y # ys)"

definition sort_with :: "('a \<Rightarrow> 'a \<Rightarrow> number) \<Rightarrow> 'a list \<Rightarrow> 'a list" where
  "sort_with compare xs = foldr (insert_sorted compare) xs []"

section \<open>Pattern detection: \<open>patternDetection.ts\<close>\<close>

datatype ValueType = Account | Name | Address | Date | Currency | Phone | Email

text \<open>
  The interfaces \<open>PatternMatch\<close> and \<open>PatternRule\<close>. The fields of a match are
  \<open>value\<close>, \<open>position\<close>, \<open>confidence\<close> and \<open>context\<close> in the source; the type of
  a rule is \<open>type\<close> there.
\<close>

record PatternMatch =
  m_value :: string
  m_position :: nat
  m_confidence :: number
  m_context :: string

record PatternRule =
  name :: string
  regex :: RegExp
  description :: string
  valueType :: ValueType
  priority :: number
  validator :: "(string \<Rightarrow> bool) option"

definition labelWords :: "string list" where
  "labelWords = [''name'', ''account'', ''number'', ''customer'', ''bill'', ''to'', ''holder'']"

text \<open>\<open>/^[A-Z]+\d+$/\<close>\<close>

definition letters_digits :: "item list" where
  "letters_digits = [(is_upper, 1, None), (is_digit, 1, None)]"

definition calculateConfidence :: "string \<Rightarrow> string \<Rightarrow> PatternRule \<Rightarrow> number" where
  "calculateConfidence v ctx rule =
     (let confidence = Fin (literal 0.5);
          confidence = num_add confidence
                         (num_times (num_over (priority rule) 10) (literal 0.3));
          hasLabel = list_ex (\<lambda>word. str_includes (toLowerCase ctx) (toLowerCase word))
                       labelWords;
          confidence = (if hasLabel then num_add confidence (Fin (literal 0.2))
                        else confidence);
          confidence = (if valueType rule = Account \<and> test_full letters_digits v
                        then num_add confidence (Fin (literal 0.1)) else confidence);
          confidence = (if length v < 3 \<or> 50 < length v
                        then num_sub confidence (Fin (literal 0.2)) else confidence)
      in num_max (Fin 0) (num_min (Fin 1) confidence))"

text \<open>
  \<open>removeDuplicates\<close>: a match is kept unless the lower-cased value was seen before.
\<close>

fun remove_seen :: "string list \<Rightarrow> PatternMatch list \<Rightarrow> PatternMatch list" where
  "remove_seen seen [] = []"
| "remove_seen seen (m # ms) =
     (let key = toLowerCase (m_value m)
      in if key \<in> set seen then remove_seen seen ms
         else m # remove_seen (key # seen) ms)"

definition removeDuplicates :: "PatternMatch list \<Rightarrow> PatternMatch list" where
  "removeDuplicates ms = remove_seen [] ms"

text \<open>
  The \<open>while\<close> loop of \<open>detectPatterns\<close> (lines 229-255) for one rule. The loop may run
  forever, so the model counts its iterations: \<open>None\<close> says that the fuel did not
  suffice. The other arguments are the \<open>lastIndex\<close> of the rule's expression and the
  list \<open>matches\<close>.
\<close>

fun detect_loop ::
  "nat \<Rightarrow> PatternRule \<Rightarrow> string \<Rightarrow> nat \<Rightarrow> PatternMatch list \<Rightarrow> PatternMatch list option"
where
  "detect_loop 0 rule text lastIndex ms = None"
| "detect_loop (Suc fuel) rule text lastIndex ms =
     (case exec (regex rule) text lastIndex of
        (None, lastIndex') \<Rightarrow> Some ms
      | (Some m, lastIndex') \<Rightarrow>
          (let v = group_or_whole m;
               position = index m
           in if (case validator rule of None \<Rightarrow> False | Some ok \<Rightarrow> \<not> ok v)
              then detect_loop fuel rule text lastIndex' ms
              else
                (let contextStart = position - 50;
                     contextEnd = min (length text) (position + length (whole m) + 50);
                     ctx = substring text contextStart contextEnd;
                     confidence = calculateConfidence v ctx rule;
                     ms' = ms @ [\<lparr> m_value = v, m_position = position,
                                    m_confidence = confidence, m_context = trim ctx \<rparr>]
                 in if \<not> global (regex rule) then Some ms'
                    else detect_loop fuel rule text lastIndex' ms')))"

text \<open>The comparison of line 260: \<open>(a, b) => b.confidence - a.confidence\<close>.\<close>

definition by_confidence :: "PatternMatch \<Rightarrow> PatternMatch \<Rightarrow> number" where
  "by_confidence a b = num_sub (m_confidence b) (m_confidence a)"

text \<open>\<open>rules.forEach\<close>: the result map after the rules, in order.\<close>

fun detect_rules ::
  "nat \<Rightarrow> string \<Rightarrow> PatternRule list \<Rightarrow> (string \<rightharpoonup> PatternMatch list)
     \<Rightarrow> (string \<rightharpoonup> PatternMatch list) option"
where
  "detect_rules fuel text [] results = Some results"
| "detect_rules fuel text (rule # rules) results =
     (case detect_loop fuel rule text 0 [] of
        None \<Rightarrow> None
      | Some ms \<Rightarrow>
          detect_rules fuel text rules
            (if ms \<noteq> []
             then results(name rule \<mapsto> sort_with by_confidence (removeDuplicates ms))
             else results))"

definition detectPatterns ::
  "nat \<Rightarrow> string \<Rightarrow> PatternRule list \<Rightarrow> (string \<rightharpoonup> PatternMatch list) option" where
  "detectPatterns fuel text rules = detect_rules fuel text rules Map.empty"

subsection \<open>Pattern synthesis\<close>

text \<open>
  \<open>Math.max(...xs)\<close> and \<open>Math.min(...xs)\<close> on counts and lengths. The list is not
  empty where the code calls them, since \<open>generateRegexPattern\<close> returns early on an
  empty list of examples.
\<close>

definition max_of :: "nat list \<Rightarrow> nat" where
  "max_of xs = fold max xs 0"

definition min_of :: "nat list \<Rightarrow> nat" where
  "min_of xs = (case xs of [] \<Rightarrow> 0 | x # ys \<Rightarrow> fold min ys x)"

definition backslash :: char where
  "backslash = CHR 0x5C"

definition generateAccountPattern :: "string list \<Rightarrow> string" where
  "generateAccountPattern examples =
     (let hasLetters = list_ex (test_some [(is_letter, 1, Some 1)]) examples;
          hasNumbers = list_ex (test_some [(is_digit, 1, Some 1)]) examples
      in if hasLetters \<and> hasNumbers then
           (let letterCount = max_of (map (count_class is_letter) examples);
                numberCount = max_of (map (count_class is_digit) examples)
            in ''[A-Z]{'' @ string_of_nat (max 1 (letterCount - 1)) @ '','' @
               string_of_nat (letterCount + 1) @ ''}'' @ [backslash] @ ''d{'' @
               string_of_nat (max 1 (numberCount - 1)) @ '','' @
               string_of_nat (numberCount + 1) @ ''}'')
         else if hasNumbers then
           (let minLength = min_of (map length examples);
                maxLength = max_of (map length examples)
            in [backslash] @ ''d{'' @ string_of_nat minLength @ '','' @
               string_of_nat maxLength @ ''}'')
         else ''[A-Z0-9]+'')"

text \<open>
  \<open>ex.split(/\s+/).length\<close>: one more than the number of maximal runs of white space.
\<close>

fun space_runs :: "bool \<Rightarrow> string \<Rightarrow> nat" where
  "space_runs inside [] = 0"
| "space_runs inside (c # cs) =
     (if is_space c then (if inside then 0 else 1) + space_runs True cs
      else space_runs False cs)"

definition generateNamePattern :: "string list \<Rightarrow> string" where
  "generateNamePattern examples =
     (let s = [backslash] @ ''s'';
          hasAmpersand = list_ex (\<lambda>ex. str_includes ex ''&'') examples
      in if hasAmpersand
         then ''[A-Z][a-z]+'' @ s @ ''*&'' @ s @ ''*[A-Z][a-z]+'' @ s @ ''+[A-Z][a-z]+''
         else
           (let wordCounts = map (\<lambda>ex. Suc (space_runs False ex)) examples;
                maxWords = max_of wordCounts
            in if 3 \<le> maxWords then ''[A-Z][a-z]+(?:'' @ s @ ''+[A-Z][a-z]+){1,2}''
               else ''[A-Z][a-z]+'' @ s @ ''+[A-Z][a-z]+''))"

definition generateGenericPattern :: "string list \<Rightarrow> string" where
  "generateGenericPattern examples =
     (case examples of
        [] \<Rightarrow> []
      | sample # rest \<Rightarrow>
          replace_all [(is_space, 1, Some 1)] ([backslash] @ ''s*'') 0
            (replace_all [(is_digit, 1, Some 1)] ([backslash] @ ''d'') 0
              (replace_all [(is_letter, 1, Some 1)] ''[A-Za-z]'' 0 sample)))"

definition generateRegexPattern :: "string list \<Rightarrow> string \<Rightarrow> string" where
  "generateRegexPattern examples type =
     (if length examples = 0 then []
      else if type = ''account'' then generateAccountPattern examples
      else if type = ''name'' then generateNamePattern examples
      else generateGenericPattern examples)"

section \<open>The pattern tester: \<open>testSinglePattern\<close> of \<open>PatternDiscoveryTool\<close>\<close>

record TestResult =
  pattern :: string
  matches :: "string list"
  success :: bool
  error :: "string option"

text \<open>
  The loop of lines 487-494. Every iteration adds a match and the loop stops after the
  51st, so it ends.
\<close>

function test_loop :: "RegExp \<Rightarrow> string \<Rightarrow> nat \<Rightarrow> string list \<Rightarrow> string list" where
  "test_loop r text lastIndex ms =
     (case exec r text lastIndex of
        (None, lastIndex') \<Rightarrow> ms
      | (Some m, lastIndex') \<Rightarrow>
          (let ms' = ms @ [group_or_whole m]
           in if \<not> global r then ms'
              else if 50 < length ms' then ms'
              else test_loop r text lastIndex' ms'))"
  by pat_completeness auto
termination
  by (relation "measure (\<lambda>(r, text, lastIndex, ms). 51 - length ms)") auto

text \<open>\<open>[...new Set(matches)]\<close>: the first occurrence of every value, in order.\<close>

fun unique :: "string list \<Rightarrow> string list \<Rightarrow> string list" where
  "unique seen [] = []"
| "unique seen (x # xs) =
     (if x \<in> set seen then unique seen xs else x # unique (x # seen) xs)"

text \<open>
  The constructor \<open>new RegExp(pattern, flags)\<close> belongs to the language, not to the
  repository, so it is a parameter: it returns the expression, or the message of the
  \<open>SyntaxError\<close> it throws (\<open>Inl\<close>).
\<close>

definition testSinglePattern ::
  "(string \<Rightarrow> string \<Rightarrow> string + RegExp) \<Rightarrow> string \<Rightarrow> string \<Rightarrow> TestResult" where
  "testSinglePattern new_RegExp pat text =
     (case new_RegExp pat ''gi'' of
        Inl message \<Rightarrow> \<lparr> pattern = pat, matches = [], success = False, error = Some message \<rparr>
      | Inr r \<Rightarrow> \<lparr> pattern = pat, matches = unique [] (test_loop r text 0 []),
                   success = True, error = None \<rparr>)"

text \<open>
  \<open>testAllPatterns\<close> (lines 525-547): the results it stores, or nothing when the test
  text is blank.
\<close>

definition testAllPatterns ::
  "(string \<Rightarrow> string \<Rightarrow> string + RegExp) \<Rightarrow> string list \<Rightarrow> string \<Rightarrow> TestResult list option"
where
  "testAllPatterns new_RegExp patternsToTest testText =
     (if trim testText = [] then None
      else Some (map (\<lambda>p. testSinglePattern new_RegExp p testText) patternsToTest))"

section \<open>The claims' own words, for comparison with the code\<close>







text \<open>
  The account pattern with the two quantifier ranges around a letter length \<open>l\<close> and a
  digit length \<open>d\<close>: one less (at least 1) to one more.
\<close>

definition range_pattern :: "nat \<Rightarrow> nat \<Rightarrow> string" where
  "range_pattern l d =
     ''[A-Z]{'' @ string_of_nat (max 1 (l - 1)) @ '','' @ string_of_nat (l + 1) @ ''}'' @
     [backslash] @ ''d{'' @ string_of_nat (max 1 (d - 1)) @ '','' @ string_of_nat (d + 1) @ ''}''"

text \<open>
  The length of the longest run of consecutive characters of a class; the first
  argument of the helper is the length of the run that is being read.
\<close>

fun longest_run_from :: "nat \<Rightarrow> (char \<Rightarrow> bool) \<Rightarrow> string \<Rightarrow> nat" where
  "longest_run_from cur P [] = cur"
| "longest_run_from cur P (c # cs) =
     (if P c then longest_run_from (Suc cur) P cs else max cur (longest_run_from 0 P cs))"

definition longest_run :: "(char \<Rightarrow> bool) \<Rightarrow> string \<Rightarrow> nat" where
  "longest_run P s = longest_run_from 0 P s"

text \<open>The pattern the specification describes: the ranges around the longest runs.\<close>

definition spec_account_pattern :: "string list \<Rightarrow> string" where
  "spec_account_pattern examples =
     range_pattern (max_of (map (longest_run is_letter) examples))
                   (max_of (map (longest_run is_digit) examples))"

section \<open>Example inputs\<close>

text \<open>A component that has received its props and has not matched yet.\<close>

definition initial_state :: "'b PDFFile list \<Rightarrow> CustomerData list \<Rightarrow> 'b AccountMatching" where
  "initial_state ps cs =
     \<lparr> pdfFiles = ps, customerData = cs, matchedData = [],
       matchStats = \<lparr> total = 0, MatchStats.matched = 0, unmatched = 0 \<rparr>,
       isMatching = False \<rparr>"

text \<open>
  Two PDFs, the first with a case and white-space variant of the customers' account
  number, the second without a customer; two customers with the same normalized key.
\<close>

definition example_pdfs :: "nat PDFFile list" where
  "example_pdfs =
     [\<lparr> PDFFile.name = ''a.pdf'', PDFFile.accountNumber = ''abc123 '',
        PDFFile.customerName = ''A'', blob = 1 \<rparr>,
      \<lparr> PDFFile.name = ''z.pdf'', PDFFile.accountNumber = ''ZZZ999'',
        PDFFile.customerName = ''Zed'', blob = 2 \<rparr>]"

definition example_customers :: "CustomerData list" where
  "example_customers =
     [\<lparr> CustomerData.accountNumber = ''ABC123'', email = ''a@x.com'',
        CustomerData.customerName = ''A'' \<rparr>,
      \<lparr> CustomerData.accountNumber = '' Abc123'', email = ''b@x.com'',
        CustomerData.customerName = ''B'' \<rparr>]"

text \<open>Two PDFs of one account and one customer with that account.\<close>

definition twin_pdfs :: "nat PDFFile list" where
  "twin_pdfs =
     [\<lparr> PDFFile.name = ''p1.pdf'', PDFFile.accountNumber = ''ABC123'',
        PDFFile.customerName = ''A'', blob = 1 \<rparr>,
      \<lparr> PDFFile.name = ''p2.pdf'', PDFFile.accountNumber = ''ABC123'',
        PDFFile.customerName = ''A'', blob = 2 \<rparr>]"

definition one_customer :: "CustomerData list" where
  "one_customer =
     [\<lparr> CustomerData.accountNumber = ''ABC123'', email = ''a@x.com'',
        CustomerData.customerName = ''A'' \<rparr>]"

text \<open>
  A stand-in for the constructor \<open>RegExp\<close> that knows two patterns and rejects every
  other one, as the constructor rejects \<open>[\<close>.
\<close>

definition example_RegExp :: "string \<Rightarrow> string \<Rightarrow> string + RegExp" where
  "example_RegExp pat flags =
     (if pat = ''[0-9]+''
        then Inr (regex_of_items (CHR ''g'' \<in> set flags) [(is_digit, 1, None)])
      else if pat = ''[A-Z]+''
        then Inr (regex_of_items (CHR ''g'' \<in> set flags)
                    [(if CHR ''i'' \<in> set flags then is_letter else is_upper, 1, None)])
      else Inl (''Invalid regular expression: /'' @ pat @ ''/''))"

text \<open>
  Two custom rules: the global expression \<open>/\d*/g\<close>, which matches the empty string
  wherever no digit stands, and the expression \<open>/\d+/\<close>, not global, with a validator
  that wants four characters.
\<close>

definition zero_width_rule :: PatternRule where
  "zero_width_rule =
     \<lparr> name = ''digits'', regex = regex_of_items True [(is_digit, 0, None)],
       description = ''Digits'', valueType = Account, priority = Fin 5, validator = None \<rparr>"

definition rejecting_rule :: PatternRule where
  "rejecting_rule =
     \<lparr> name = ''number'', regex = regex_of_items False [(is_digit, 1, None)],
       description = ''Number'', valueType = Account, priority = Fin 5,
       validator = Some (\<lambda>v. 4 \<le> length v) \<rparr>"




section \<open>Facts about the customer map\<close>

lemma fold_set_lookup:
  "fold (\<lambda>c m. m(customer_key c \<mapsto> c)) cs m k =
     (if filter (\<lambda>c. customer_key c = k) cs = [] then m k
      else Some (last (filter (\<lambda>c. customer_key c = k) cs)))"
  by (induction cs arbitrary: m) auto

lemma customerMap_lookup:
  "customerMap cs k =
     (if filter (\<lambda>c. customer_key c = k) cs = [] then None
      else Some (last (filter (\<lambda>c. customer_key c = k) cs)))"
  unfolding customerMap_def by (simp add: fold_set_lookup)

lemma dom_customerMap: "dom (customerMap cs) = customer_key ` set cs"
  by (auto simp: dom_def customerMap_lookup filter_empty_conv image_iff)

lemma customerMap_Some_in_set:
  assumes "customerMap cs k = Some c"
  shows "c \<in> set cs \<and> customer_key c = k"
proof -
  let ?fs = "filter (\<lambda>c. customer_key c = k) cs"
  from assms have ne: "?fs \<noteq> []" and c: "c = last ?fs"
    by (auto simp: customerMap_lookup split: if_splits)
  from ne have "last ?fs \<in> set ?fs" by (rule last_in_set)
  with c show ?thesis by auto
qed

lemma matched_match_pdf:
  "MatchedData.matched (match_pdf m p) = (pdf_key p \<in> dom m)"
  by (auto simp: match_pdf_def Let_def)

lemma pdf_match_pdf: "pdf (match_pdf m p) = p"
  by (simp add: match_pdf_def Let_def)

lemma length_matches_of: "length (matches_of ps cs) = length ps"
  by (simp add: matches_of_def)

lemma matched_filter_keys:
  "map (\<lambda>r. pdf_key (pdf r)) (filter MatchedData.matched (map (match_pdf m) ps)) =
     filter (\<lambda>k. k \<in> dom m) (map pdf_key ps)"
  by (induction ps) (auto simp: matched_match_pdf pdf_match_pdf)

lemma matched_count_le:
  assumes "distinct (map pdf_key ps)"
  shows "length (filter MatchedData.matched (matches_of ps cs)) \<le> card (customer_key ` set cs)"
proof -
  let ?m = "customerMap cs"
  let ?ks = "filter (\<lambda>k. k \<in> dom ?m) (map pdf_key ps)"
  have "length (filter MatchedData.matched (matches_of ps cs)) = length ?ks"
    unfolding matches_of_def
    using arg_cong [OF matched_filter_keys [of ?m ps], of length] by simp
  also have "\<dots> = card (set ?ks)"
  proof -
    from assms have "distinct ?ks" by (rule distinct_filter)
    then show ?thesis by (rule distinct_card [symmetric])
  qed
  also have "\<dots> \<le> card (dom ?m)"
    by (rule card_mono) (auto simp: dom_customerMap)
  finally show ?thesis by (simp add: dom_customerMap)
qed

lemma matchedData_performMatching:
  "matchedData (performMatching st) = matches_of (pdfFiles st) (customerData st)"
  by (simp add: performMatching_def Let_def)

lemma nth_matches_of:
  "i < length ps \<Longrightarrow> matches_of ps cs ! i = match_pdf (customerMap cs) (ps ! i)"
  by (simp add: matches_of_def)

lemma customer_match_pdf:
  "customer (match_pdf m p) =
     (case m (pdf_key p) of
        Some c \<Rightarrow> c
      | None \<Rightarrow> \<lparr> CustomerData.accountNumber = PDFFile.accountNumber p, email = [],
                  CustomerData.customerName = PDFFile.customerName p \<rparr>)"
  by (simp add: match_pdf_def Let_def)

section \<open>Reconciliation: the claims\<close>

text \<open>
  C1, as amended. \<open>performMatching\<close> produces one record per PDF, so the result is as
  long as the list of PDFs; a record is matched iff the account number of its PDF, in
  lower case and trimmed, is a key of the customer map, whose keys are the normalized
  account numbers of the customers; and when the normalized account numbers of the PDFs
  are pairwise distinct, the number of matched records is at most the number of
  distinct normalized customer keys.
\<close>

theorem performMatching_complete:
  "length (matchedData (performMatching st)) = length (pdfFiles st)
   \<and> (\<forall>i < length (pdfFiles st).
         MatchedData.matched (matchedData (performMatching st) ! i)
           = (pdf_key (pdfFiles st ! i) \<in> dom (customerMap (customerData st))))
   \<and> dom (customerMap (customerData st)) = customer_key ` set (customerData st)
   \<and> (distinct (map pdf_key (pdfFiles st)) \<longrightarrow>
         length (filter MatchedData.matched (matchedData (performMatching st)))
           \<le> card (customer_key ` set (customerData st)))"
  by (simp add: matchedData_performMatching length_matches_of nth_matches_of
        matched_match_pdf dom_customerMap matched_count_le)

text \<open>The amended C1 on the example: the two PDFs have distinct keys, the first is matched.\<close>

theorem performMatching_complete_witness:
  "(0::nat) < length (pdfFiles (initial_state example_pdfs example_customers))
   \<and> distinct (map pdf_key (pdfFiles (initial_state example_pdfs example_customers)))
   \<and> MatchedData.matched
        (matchedData (performMatching (initial_state example_pdfs example_customers)) ! 0)
   \<and> length (filter MatchedData.matched
               (matchedData (performMatching (initial_state example_pdfs example_customers))))
       \<le> card (customer_key ` set (customerData (initial_state example_pdfs example_customers)))"
proof -
  let ?st = "initial_state example_pdfs example_customers"
  have l: "(0::nat) < length (pdfFiles ?st)" by code_simp
  have d: "distinct (map pdf_key (pdfFiles ?st))" by code_simp
  have k: "pdf_key (pdfFiles ?st ! 0) \<in> dom (customerMap (customerData ?st))" by code_simp
  show ?thesis
    using l d k performMatching_complete [of ?st] by blast
qed

text \<open>
  C1 as stated fails: two PDFs of the same account and one customer with that account
  give two matched records for one customer key.
\<close>

theorem matched_count_counterexample:
  "\<not> length (filter MatchedData.matched
               (matchedData (performMatching (initial_state twin_pdfs one_customer))))
       \<le> card (customer_key ` set (customerData (initial_state twin_pdfs one_customer)))"
  by code_simp

text \<open>
  C4. The customer records that reach \<open>performMatching\<close> have a non-empty email:
  the CSV ingestion (\<open>CsvUploadComponent\<close>, lines 179-198) drops every row without a
  valid email. For such customers a record is matched iff the email of its customer is
  non-empty and the customer is the value the customer map holds for the normalized
  account number of the PDF, that is, the join hit. A matched record carries one of the
  input records; a record that is not matched carries the placeholder, whose email is
  empty and whose account number and name are those of the PDF.
\<close>

theorem matched_iff_join_hit:
  assumes "i < length (pdfFiles st)"
    and "\<forall>c \<in> set (customerData st). email c \<noteq> []"
  shows "(MatchedData.matched (matchedData (performMatching st) ! i)
            \<longleftrightarrow> email (customer (matchedData (performMatching st) ! i)) \<noteq> []
                 \<and> customerMap (customerData st) (pdf_key (pdfFiles st ! i))
                     = Some (customer (matchedData (performMatching st) ! i)))
         \<and> (MatchedData.matched (matchedData (performMatching st) ! i)
              \<longrightarrow> customer (matchedData (performMatching st) ! i) \<in> set (customerData st))
         \<and> (\<not> MatchedData.matched (matchedData (performMatching st) ! i)
              \<longrightarrow> customer (matchedData (performMatching st) ! i)
                    = \<lparr> CustomerData.accountNumber = PDFFile.accountNumber (pdfFiles st ! i),
                        email = [],
                        CustomerData.customerName = PDFFile.customerName (pdfFiles st ! i) \<rparr>)"
proof (cases "customerMap (customerData st) (pdf_key (pdfFiles st ! i))")
  case None
  with assms(1) show ?thesis
    by (simp add: matchedData_performMatching nth_matches_of customer_match_pdf
          matched_match_pdf dom_def)
next
  case (Some c)
  then have "c \<in> set (customerData st)" by (simp add: customerMap_Some_in_set)
  with Some assms show ?thesis
    by (auto simp: matchedData_performMatching nth_matches_of customer_match_pdf
          matched_match_pdf dom_def)
qed

text \<open>
  C4 on the example, whose customers all have an email: the first record is matched and
  carries a customer with an email, the second is not and carries an empty email.
\<close>

theorem matched_iff_join_hit_witness:
  "(1::nat) < length (pdfFiles (initial_state example_pdfs example_customers))
   \<and> list_all (\<lambda>c. email c \<noteq> [])
        (customerData (initial_state example_pdfs example_customers))
   \<and> MatchedData.matched
        (matchedData (performMatching (initial_state example_pdfs example_customers)) ! 0)
   \<and> email (customer
        (matchedData (performMatching (initial_state example_pdfs example_customers)) ! 0)) \<noteq> []
   \<and> customer (matchedData (performMatching (initial_state example_pdfs example_customers)) ! 0)
        \<in> set (customerData (initial_state example_pdfs example_customers))
   \<and> \<not> MatchedData.matched
        (matchedData (performMatching (initial_state example_pdfs example_customers)) ! 1)
   \<and> email (customer
        (matchedData (performMatching (initial_state example_pdfs example_customers)) ! 1)) = []"
proof -
  let ?st = "initial_state example_pdfs example_customers"
  have l0: "(0::nat) < length (pdfFiles ?st)" and l1: "(1::nat) < length (pdfFiles ?st)"
    by code_simp+
  have e: "list_all (\<lambda>c. email c \<noteq> []) (customerData ?st)" by code_simp
  then have e': "\<forall>c \<in> set (customerData ?st). email c \<noteq> []"
    by (simp add: list_all_iff)
  have m0: "MatchedData.matched (matchedData (performMatching ?st) ! 0)" by code_simp
  have m1: "\<not> MatchedData.matched (matchedData (performMatching ?st) ! 1)" by code_simp
  note first = matched_iff_join_hit [OF l0 e'] and second = matched_iff_join_hit [OF l1 e']
  from first m0
  have a: "email (customer (matchedData (performMatching ?st) ! 0)) \<noteq> []"
    and b: "customer (matchedData (performMatching ?st) ! 0) \<in> set (customerData ?st)"
    by blast+
  from second m1
  have "customer (matchedData (performMatching ?st) ! 1)
          = \<lparr> CustomerData.accountNumber = PDFFile.accountNumber (pdfFiles ?st ! 1),
              email = [],
              CustomerData.customerName = PDFFile.customerName (pdfFiles ?st ! 1) \<rparr>"
    by blast
  then have c: "email (customer (matchedData (performMatching ?st) ! 1)) = []"
    by simp
  from l1 e m0 a b m1 c show ?thesis by (intro conjI)
qed

text \<open>
  C8. When customer records normalize to the key of a PDF, the record of that PDF is
  matched and carries the last of them in input order. \<open>performMatching\<close> has no error
  result, so nothing is reported.
\<close>

theorem last_customer_wins:
  assumes "i < length (pdfFiles st)"
    and "filter (\<lambda>c. customer_key c = pdf_key (pdfFiles st ! i)) (customerData st) \<noteq> []"
  shows "customer (matchedData (performMatching st) ! i)
           = last (filter (\<lambda>c. customer_key c = pdf_key (pdfFiles st ! i)) (customerData st))
         \<and> MatchedData.matched (matchedData (performMatching st) ! i)"
  using assms
  by (simp add: matchedData_performMatching nth_matches_of customer_match_pdf
        matched_match_pdf customerMap_lookup dom_def)

text \<open>
  C8 on the example: both customers normalize to the key of the first PDF, and the
  second customer is the one in the record.
\<close>

theorem last_customer_wins_witness:
  "(0::nat) < length (pdfFiles (initial_state example_pdfs example_customers))
   \<and> filter (\<lambda>c. customer_key c
                 = pdf_key (pdfFiles (initial_state example_pdfs example_customers) ! 0))
        (customerData (initial_state example_pdfs example_customers)) = example_customers
   \<and> customer (matchedData (performMatching (initial_state example_pdfs example_customers)) ! 0)
        = \<lparr> CustomerData.accountNumber = '' Abc123'', email = ''b@x.com'',
            CustomerData.customerName = ''B'' \<rparr>"
proof -
  let ?st = "initial_state example_pdfs example_customers"
  have l: "(0::nat) < length (pdfFiles ?st)" by code_simp
  have f: "filter (\<lambda>c. customer_key c = pdf_key (pdfFiles ?st ! 0)) (customerData ?st)
             = example_customers" by code_simp
  have n: "example_customers \<noteq> []" by code_simp
  have e: "last example_customers
             = \<lparr> CustomerData.accountNumber = '' Abc123'', email = ''b@x.com'',
                 CustomerData.customerName = ''B'' \<rparr>" by code_simp
  from f n
  have "filter (\<lambda>c. customer_key c = pdf_key (pdfFiles ?st ! 0)) (customerData ?st) \<noteq> []"
    by simp
  from last_customer_wins [OF l this] l f e show ?thesis by simp
qed

text \<open>
  C10. The i-th record carries the i-th PDF, unchanged in every field, and
  \<open>performMatching\<close> leaves both props as they were.
\<close>

theorem performMatching_frame:
  "length (matchedData (performMatching st)) = length (pdfFiles st)
   \<and> (\<forall>i < length (pdfFiles st). pdf (matchedData (performMatching st) ! i) = pdfFiles st ! i)
   \<and> pdfFiles (performMatching st) = pdfFiles st
   \<and> customerData (performMatching st) = customerData st"
  by (simp add: performMatching_def Let_def matches_of_def pdf_match_pdf)

text \<open>C10 on the example: the second record carries the second PDF.\<close>

theorem performMatching_frame_witness:
  "(1::nat) < length (pdfFiles (initial_state example_pdfs example_customers))
   \<and> pdf (matchedData (performMatching (initial_state example_pdfs example_customers)) ! 1)
       = \<lparr> PDFFile.name = ''z.pdf'', PDFFile.accountNumber = ''ZZZ999'',
           PDFFile.customerName = ''Zed'', blob = 2 \<rparr>"
proof -
  let ?st = "initial_state example_pdfs example_customers"
  have l: "(1::nat) < length (pdfFiles ?st)" by code_simp
  have p: "pdfFiles ?st ! 1 = \<lparr> PDFFile.name = ''z.pdf'', PDFFile.accountNumber = ''ZZZ999'',
           PDFFile.customerName = ''Zed'', blob = 2 \<rparr>" by code_simp
  show ?thesis
    using l p performMatching_frame [of ?st] by simp
qed

section \<open>Filename decomposition: the claims\<close>

lemma or_Unknown_nonempty: "or_Unknown x \<noteq> []"
  by (simp add: or_Unknown_def)

text \<open>
  C2. For every filename both fields of the result of \<open>parseFilename\<close> are non-empty.
\<close>

theorem parseFilename_total:
  "ParsedFilename.accountNumber (parseFilename filename) \<noteq> []
   \<and> ParsedFilename.customerName (parseFilename filename) \<noteq> []"
  by (simp add: parseFilename_def Let_def or_Unknown_nonempty split: prod.split)

text \<open>C2 on the empty filename, where both fields are the sentinel.\<close>

theorem parseFilename_total_witness:
  "parseFilename [] = \<lparr> ParsedFilename.accountNumber = ''Unknown'',
                        ParsedFilename.customerName = ''Unknown'' \<rparr>
   \<and> ParsedFilename.accountNumber (parseFilename []) \<noteq> []
   \<and> ParsedFilename.customerName (parseFilename []) \<noteq> []"
proof -
  have "parseFilename [] = \<lparr> ParsedFilename.accountNumber = ''Unknown'',
                             ParsedFilename.customerName = ''Unknown'' \<rparr>"
    by code_simp
  then show ?thesis using parseFilename_total [of "[]"] by simp
qed

text \<open>
  C6. On the filename of the claim the first strategy finds the account number and
  leaves the month and year in the name: only numeric dates with a slash or a dash are
  removed, and the second strategy, which would take the part between the underscores,
  is not reached.
\<close>

theorem parseFilename_keeps_month_year:
  "parseFilename ''FBNWSTX123456_John Smith_May 2025.pdf'' =
     \<lparr> ParsedFilename.accountNumber = ''FBNWSTX123456'',
       ParsedFilename.customerName = ''John Smith May 2025'' \<rparr>"
  by code_simp

section \<open>The pattern tester: the claim\<close>

text \<open>
  C9. When the constructor rejects the pattern, \<open>testSinglePattern\<close> returns the
  result for that pattern with \<open>success = false\<close>, no matches and the message; and
  \<open>testAllPatterns\<close> still evaluates the patterns before and after it.
\<close>

theorem testSinglePattern_invalid:
  assumes "new_RegExp pat ''gi'' = Inl message" and "trim text \<noteq> []"
  shows "testSinglePattern new_RegExp pat text
           = \<lparr> pattern = pat, matches = [], success = False, error = Some message \<rparr>
         \<and> testAllPatterns new_RegExp (before @ pat # after) text
           = Some (map (\<lambda>p. testSinglePattern new_RegExp p text) before
                   @ \<lparr> pattern = pat, matches = [], success = False, error = Some message \<rparr>
                   # map (\<lambda>p. testSinglePattern new_RegExp p text) after)"
  using assms by (simp add: testSinglePattern_def testAllPatterns_def)

text \<open>C9 on three patterns, the second of which is rejected.\<close>

theorem testSinglePattern_invalid_witness:
  "example_RegExp ''['' ''gi'' = Inl ''Invalid regular expression: /[/''
   \<and> trim ''ab 12 cd 345 12'' = ''ab 12 cd 345 12''
   \<and> testAllPatterns example_RegExp ([''[0-9]+''] @ ''['' # [''[A-Z]+'']) ''ab 12 cd 345 12''
       = Some [\<lparr> pattern = ''[0-9]+'', matches = [''12'', ''345''], success = True,
                 error = None \<rparr>,
               \<lparr> pattern = ''['', matches = [], success = False,
                 error = Some ''Invalid regular expression: /[/'' \<rparr>,
               \<lparr> pattern = ''[A-Z]+'', matches = [''ab'', ''cd''], success = True,
                 error = None \<rparr>]"
proof -
  have c: "example_RegExp ''['' ''gi'' = Inl ''Invalid regular expression: /[/''"
    by (simp add: example_RegExp_def)
  have t: "trim ''ab 12 cd 345 12'' = ''ab 12 cd 345 12''" by code_simp
  then have n: "trim ''ab 12 cd 345 12'' \<noteq> []" by simp
  have b: "map (\<lambda>p. testSinglePattern example_RegExp p ''ab 12 cd 345 12'') [''[0-9]+'']
             = [\<lparr> pattern = ''[0-9]+'', matches = [''12'', ''345''], success = True,
                  error = None \<rparr>]"
    by code_simp
  have a: "map (\<lambda>p. testSinglePattern example_RegExp p ''ab 12 cd 345 12'') [''[A-Z]+'']
             = [\<lparr> pattern = ''[A-Z]+'', matches = [''ab'', ''cd''], success = True,
                  error = None \<rparr>]"
    by code_simp
  from testSinglePattern_invalid
         [of example_RegExp "''[''" _ _ "[''[0-9]+'']" "[''[A-Z]+'']", OF c n] c t
  show ?thesis unfolding a b by simp
qed

section \<open>Pattern detection: termination\<close>

lemma exec_zero_width:
  "exec (regex zero_width_rule) ''abc'' 0
     = (Some \<lparr> index = 0, whole = [], group1 = None \<rparr>, 0)"
  by code_simp

lemma zero_width_loop: "detect_loop fuel zero_width_rule ''abc'' 0 ms = None"
proof (induction fuel arbitrary: ms)
  case 0
  show ?case by simp
next
  case (Suc fuel)
  have g: "global (regex zero_width_rule)" by code_simp
  have v: "validator zero_width_rule = None" by (simp add: zero_width_rule_def)
  show ?case
    by (simp add: exec_zero_width g v Let_def Suc.IH)
qed

lemma exec_rejecting:
  "exec (regex rejecting_rule) ''a12'' 0
     = (Some \<lparr> index = 1, whole = ''12'', group1 = None \<rparr>, 0)"
  by code_simp

lemma rejecting_loop: "detect_loop fuel rejecting_rule ''a12'' 0 ms = None"
proof (induction fuel arbitrary: ms)
  case 0
  show ?case by simp
next
  case (Suc fuel)
  have v: "validator rejecting_rule = Some (\<lambda>v. 4 \<le> length v)"
    by (simp add: rejecting_rule_def)
  show ?case
    by (simp add: exec_rejecting v Let_def group_or_whole_def Suc.IH)
qed

text \<open>
  What the guard of line 254 does achieve: an expression that is not global, in a rule
  without validator, is applied once, and the loop ends with at most one match.
\<close>

lemma not_global_once:
  assumes "\<not> global (regex rule)" and "validator rule = None"
  shows "detect_loop (Suc fuel) rule text 0 [] \<noteq> None
         \<and> (\<forall>ms. detect_loop (Suc fuel) rule text 0 [] = Some ms \<longrightarrow> length ms \<le> 1)"
  using assms by (auto simp: Let_def split: prod.splits option.splits)

text \<open>
  C5. The loop of \<open>detectPatterns\<close> does not end on two inputs, whatever the number of
  iterations it is given: the global expression \<open>/\d*/g\<close> on \<open>abc\<close> matches the empty
  string at index 0 again and again, since \<open>lastIndex\<close> stays 0; and the expression
  \<open>/\d+/\<close>, not global, on \<open>a12\<close> finds \<open>12\<close>, which the validator rejects, and
  \<open>continue\<close> skips the \<open>break\<close> of line 254, so the same match is found again.
\<close>

theorem detectPatterns_runs_forever:
  "detectPatterns fuel ''abc'' [zero_width_rule] = None
   \<and> detectPatterns fuel ''a12'' [rejecting_rule] = None"
  by (simp add: detectPatterns_def zero_width_loop rejecting_loop)

section \<open>Pattern synthesis: the claim\<close>

lemma run_Some_0: "run P (Some 0) s = 0"
  by (cases s) simp_all

lemma match_single:
  "match_items [(P, Suc 0, Some (Suc 0))] False s =
     (case s of [] \<Rightarrow> None | c # cs \<Rightarrow> if P c then Some (Suc 0) else None)"
  by (cases s) (simp_all add: run_Some_0)

lemma search_single:
  "(search_items [(P, Suc 0, Some (Suc 0))] i s \<noteq> None) = (\<exists>c \<in> set s. P c)"
  by (induction s arbitrary: i) (auto simp: match_single)

lemma test_some_single: "test_some [(P, Suc 0, Some (Suc 0))] s = (\<exists>c \<in> set s. P c)"
  unfolding test_some_def by (rule search_single)

lemma max_of_Max: "max_of xs = Max (set (0 # xs))"
  unfolding max_of_def by (rule Max.set_eq_fold [symmetric])

lemma le_max_of: "x \<in> set xs \<Longrightarrow> x \<le> max_of xs"
  unfolding max_of_Max by (rule Max_ge) simp_all

lemma letter_not_digit: "is_letter c \<Longrightarrow> \<not> is_digit c"
  by (auto simp: is_letter_def is_digit_def is_upper_def is_lower_def Let_def)

lemma longest_run_from_all:
  "list_all P xs \<Longrightarrow> longest_run_from cur P (xs @ ys) = longest_run_from (cur + length xs) P ys"
  by (induction xs arbitrary: cur) simp_all

lemma longest_run_from_none:
  "list_all (\<lambda>c. \<not> P c) ys \<Longrightarrow> longest_run_from cur P ys = cur"
  by (induction ys arbitrary: cur) simp_all

lemma longest_run_from_none_all:
  "list_all (\<lambda>c. \<not> P c) xs \<Longrightarrow> list_all P ys \<Longrightarrow>
     longest_run_from 0 P (xs @ ys) = length ys"
proof (induction xs)
  case Nil
  then show ?case using longest_run_from_all [of P ys 0 "[]"] by simp
next
  case (Cons x xs)
  then show ?case by simp
qed

lemma count_all: "list_all P xs \<Longrightarrow> count_class P xs = length xs"
  by (induction xs) (simp_all add: count_class_def)

lemma count_none: "list_all (\<lambda>c. \<not> P c) xs \<Longrightarrow> count_class P xs = 0"
  by (induction xs) (simp_all add: count_class_def)

lemma count_append: "count_class P (xs @ ys) = count_class P xs + count_class P ys"
  by (simp add: count_class_def)

lemma runs_are_counts:
  assumes "list_all is_letter ls" and "list_all is_digit ds"
  shows "longest_run is_letter (ls @ ds) = count_class is_letter (ls @ ds)"
    and "longest_run is_digit (ls @ ds) = count_class is_digit (ls @ ds)"
proof -
  from assms(1) have nl: "list_all (\<lambda>c. \<not> is_digit c) ls"
    by (simp add: list_all_iff letter_not_digit)
  from assms(2) have nd: "list_all (\<lambda>c. \<not> is_letter c) ds"
    using letter_not_digit by (auto simp: list_all_iff)
  show "longest_run is_letter (ls @ ds) = count_class is_letter (ls @ ds)"
    using assms(1) nd
    by (simp add: longest_run_def longest_run_from_all longest_run_from_none
          count_append count_all count_none)
  show "longest_run is_digit (ls @ ds) = count_class is_digit (ls @ ds)"
    using assms(2) nl
    by (simp add: longest_run_def longest_run_from_none_all
          count_append count_all count_none)
qed

lemma generateAccountPattern_mixed:
  assumes "\<exists>ex \<in> set examples. \<exists>c \<in> set ex. is_letter c"
    and "\<exists>ex \<in> set examples. \<exists>c \<in> set ex. is_digit c"
  shows "generateRegexPattern examples ''account''
           = range_pattern (max_of (map (count_class is_letter) examples))
                           (max_of (map (count_class is_digit) examples))"
proof -
  from assms(1) have ne: "examples \<noteq> []" by auto
  have hl: "list_ex (test_some [(is_letter, 1, Some 1)]) examples"
    using assms(1) by (simp add: list_ex_iff test_some_single)
  have hd: "list_ex (test_some [(is_digit, 1, Some 1)]) examples"
    using assms(2) by (simp add: list_ex_iff test_some_single)
  have "generateRegexPattern examples ''account'' = generateAccountPattern examples"
    using ne by (simp add: generateRegexPattern_def)
  also have "\<dots> = range_pattern (max_of (map (count_class is_letter) examples))
                           (max_of (map (count_class is_digit) examples))"
    unfolding generateAccountPattern_def range_pattern_def Let_def
    by (simp only: hl hd simp_thms if_True)
  finally show ?thesis .
qed

lemma count_pos: "\<exists>c \<in> set s. P c \<Longrightarrow> 1 \<le> count_class P s"
  by (induction s) (auto simp: count_class_def)

lemma max_of_pos:
  assumes "\<exists>ex \<in> set examples. \<exists>c \<in> set ex. P c"
  shows "1 \<le> max_of (map (count_class P) examples)"
proof -
  from assms obtain ex where ex: "ex \<in> set examples" and c: "\<exists>c \<in> set ex. P c" by blast
  from c have "1 \<le> count_class P ex" by (rule count_pos)
  also from ex have "\<dots> \<le> max_of (map (count_class P) examples)"
    by (intro le_max_of) simp
  finally show ?thesis .
qed

text \<open>
  C7, as amended. When some example holds a letter and some example holds a digit,
  \<open>generateRegexPattern\<close> returns for the type \<open>account\<close> the pattern
  \<open>[A-Z]{a,b}\d{c,d}\<close> whose ranges go from one less (at least 1) to one more than the
  greatest number of letters, and of digits, that a single example holds; the greatest
  number lies in its range and no example holds more letters or digits than the upper
  bound. These numbers are the run lengths when every example is a run of letters
  followed by a run of digits, and then the pattern is the one the specification
  describes. For the two examples of the claim the pattern is \<open>[A-Z]{6,8}\d{4,6}\<close>.
\<close>

theorem generateRegexPattern_account:
  assumes "\<exists>ex \<in> set examples. \<exists>c \<in> set ex. is_letter c"
    and "\<exists>ex \<in> set examples. \<exists>c \<in> set ex. is_digit c"
  shows "generateRegexPattern examples ''account''
           = range_pattern (max_of (map (count_class is_letter) examples))
                           (max_of (map (count_class is_digit) examples))
         \<and> max 1 (max_of (map (count_class is_letter) examples) - 1)
             \<le> max_of (map (count_class is_letter) examples)
         \<and> max 1 (max_of (map (count_class is_digit) examples) - 1)
             \<le> max_of (map (count_class is_digit) examples)
         \<and> (\<forall>ex \<in> set examples.
               count_class is_letter ex \<le> max_of (map (count_class is_letter) examples) + 1
               \<and> count_class is_digit ex \<le> max_of (map (count_class is_digit) examples) + 1)
         \<and> ((\<forall>ex \<in> set examples. \<exists>ls ds. ex = ls @ ds \<and> list_all is_letter ls
                                          \<and> list_all is_digit ds)
              \<longrightarrow> generateRegexPattern examples ''account'' = spec_account_pattern examples)
         \<and> generateRegexPattern [''FBNWSTX1234'', ''SMNWSTX56789''] ''account''
             = ''[A-Z]{6,8}'' @ [backslash] @ ''d{4,6}''"
proof -
  let ?L = "max_of (map (count_class is_letter) examples)"
  let ?D = "max_of (map (count_class is_digit) examples)"
  note eq = generateAccountPattern_mixed [OF assms]
  have "1 \<le> ?L" using assms(1) by (rule max_of_pos)
  then have l: "max 1 (?L - 1) \<le> ?L" by simp
  have "1 \<le> ?D" using assms(2) by (rule max_of_pos)
  then have d: "max 1 (?D - 1) \<le> ?D" by simp
  have b: "\<forall>ex \<in> set examples. count_class is_letter ex \<le> ?L + 1
                                  \<and> count_class is_digit ex \<le> ?D + 1"
  proof
    fix ex assume "ex \<in> set examples"
    then have "count_class is_letter ex \<le> ?L" and "count_class is_digit ex \<le> ?D"
      by (simp_all add: le_max_of)
    then show "count_class is_letter ex \<le> ?L + 1 \<and> count_class is_digit ex \<le> ?D + 1"
      by simp
  qed
  have r: "(\<forall>ex \<in> set examples. \<exists>ls ds. ex = ls @ ds \<and> list_all is_letter ls
                                          \<and> list_all is_digit ds)
            \<longrightarrow> generateRegexPattern examples ''account'' = spec_account_pattern examples"
  proof
    assume shape: "\<forall>ex \<in> set examples. \<exists>ls ds. ex = ls @ ds \<and> list_all is_letter ls
                                          \<and> list_all is_digit ds"
    have "longest_run is_letter ex = count_class is_letter ex
          \<and> longest_run is_digit ex = count_class is_digit ex" if "ex \<in> set examples" for ex
    proof -
      from that shape obtain ls ds
        where "ex = ls @ ds" and "list_all is_letter ls" and "list_all is_digit ds"
        by blast
      then show ?thesis by (simp only: runs_are_counts)
    qed
    then have "map (longest_run is_letter) examples = map (count_class is_letter) examples"
      and "map (longest_run is_digit) examples = map (count_class is_digit) examples"
      by simp_all
    then show "generateRegexPattern examples ''account'' = spec_account_pattern examples"
      by (simp only: eq spec_account_pattern_def)
  qed
  have p: "generateRegexPattern [''FBNWSTX1234'', ''SMNWSTX56789''] ''account''
             = ''[A-Z]{6,8}'' @ [backslash] @ ''d{4,6}''"
    by code_simp
  show ?thesis
    by (rule conjI [OF eq conjI [OF l conjI [OF d conjI [OF b conjI [OF r p]]]]])
qed


text \<open>
  C7 on the examples of the claim: 7 letters in both, 4 and 5 digits, and the ranges 6
  to 8 and 4 to 6.
\<close>

theorem generateRegexPattern_account_witness:
  "list_ex (list_ex is_letter) [''FBNWSTX1234'', ''SMNWSTX56789'']
   \<and> list_ex (list_ex is_digit) [''FBNWSTX1234'', ''SMNWSTX56789'']
   \<and> map (count_class is_letter) [''FBNWSTX1234'', ''SMNWSTX56789''] = [7, 7]
   \<and> map (count_class is_digit) [''FBNWSTX1234'', ''SMNWSTX56789''] = [4, 5]
   \<and> generateRegexPattern [''FBNWSTX1234'', ''SMNWSTX56789''] ''account'' = range_pattern 7 5
   \<and> range_pattern 7 5 = ''[A-Z]{6,8}'' @ [backslash] @ ''d{4,6}''"
proof -
  let ?ex = "[''FBNWSTX1234'', ''SMNWSTX56789'']"
  have a: "list_ex (list_ex is_letter) ?ex" by code_simp
  have b: "list_ex (list_ex is_digit) ?ex" by code_simp
  have c: "map (count_class is_letter) ?ex = [7, 7]" by code_simp
  have d: "map (count_class is_digit) ?ex = [4, 5]" by code_simp
  have m: "max_of [7, 7] = 7" "max_of [4, 5] = 5" by code_simp+
  have r: "range_pattern 7 5 = ''[A-Z]{6,8}'' @ [backslash] @ ''d{4,6}''" by code_simp
  have "is_letter (CHR ''F'')" by code_simp
  then have a': "\<exists>ex \<in> set ?ex. \<exists>c \<in> set ex. is_letter c" by simp
  have "is_digit (CHR ''1'')" by code_simp
  then have b': "\<exists>ex \<in> set ?ex. \<exists>c \<in> set ex. is_digit c" by simp
  from generateRegexPattern_account [OF a' b']
  have "generateRegexPattern ?ex ''account''
          = range_pattern (max_of (map (count_class is_letter) ?ex))
                          (max_of (map (count_class is_digit) ?ex))"
    by (rule conjunct1)
  then have g: "generateRegexPattern ?ex ''account'' = range_pattern 7 5"
    by (simp only: c d m)
  show ?thesis
    by (rule conjI [OF a conjI [OF b conjI [OF c conjI [OF d conjI [OF g r]]]]])
qed

text \<open>
  C7 as stated fails: the example \<open>AB12CD\<close> holds four letters in runs of two, and
  the code takes the range around four, not around two.
\<close>

theorem run_length_counterexample:
  "generateRegexPattern [''AB12CD''] ''account'' \<noteq> spec_account_pattern [''AB12CD'']"
  by code_simp

section \<open>The matcher on the shape of letters and digits\<close>








section \<open>Label words and trimming\<close>













section \<open>\<open>NaN\<close> and the unit interval\<close>















section \<open>Pattern detection: confidence\<close>








end
